theory Spec2Isabelle
  imports Main "HOL-Library.AList" "HOL-Library.Char_ord" "HOL-Library.List_Lexorder"
begin

section \<open>Dynamic values and their encodings\<close>

text \<open>
  The client passes document fields, view keys and request bodies around as Go values of
  type \<^verbatim>\<open>interface{}\<close>. The values that \<^verbatim>\<open>encoding/json\<close> produces and accepts
  form a tree: \<^verbatim>\<open>nil\<close>, a boolean, a number, a string, a slice and a map with string
  keys. Numbers are the integers here (a Go \<^verbatim>\<open>int\<close>, or a \<^verbatim>\<open>float64\<close> with an
  integral value, which both print as the same decimal digits); nothing in the code
  computes with them. A map is an association list; Go maps have no duplicate keys and no
  order, and wherever Go fixes an order (printing) the keys are sorted below.
\<close>

datatype json =
    JNull
  | JBool bool
  | JNumber int
  | JString string
  | JArray "json list"
  | JObject "(string \<times> json) list"

text \<open>A Go slice is \<^verbatim>\<open>nil\<close> or a sequence; \<^verbatim>\<open>len\<close> of the nil slice is 0.\<close>

type_synonym 'a slice = "'a list option"

definition len :: "'a slice \<Rightarrow> nat" where
  "len s = (case s of None \<Rightarrow> 0 | Some xs \<Rightarrow> length xs)"

text \<open>A \<^verbatim>\<open>[]interface{}\<close> stored in an \<^verbatim>\<open>interface{}\<close>: the nil slice encodes as
  \<^verbatim>\<open>null\<close>, any other slice as an array.\<close>

definition slice_value :: "json slice \<Rightarrow> json" where
  "slice_value s = (case s of None \<Rightarrow> JNull | Some xs \<Rightarrow> JArray xs)"

subsection \<open>Decimal integers: \<^verbatim>\<open>%d\<close> and \<^verbatim>\<open>strconv\<close>\<close>

definition digit_char :: "nat \<Rightarrow> char" where
  "digit_char n = ''0123456789'' ! n"

fun show_nat :: "nat \<Rightarrow> string" where
  "show_nat n =
     (if n < 10 then [digit_char n] else show_nat (n div 10) @ [digit_char (n mod 10)])"

definition Sprintf_d :: "int \<Rightarrow> string" where
  "Sprintf_d i = (if i < 0 then CHR ''-'' # show_nat (nat (- i)) else show_nat (nat i))"

definition Sprintf_t :: "bool \<Rightarrow> string" where
  "Sprintf_t b = (if b then ''true'' else ''false'')"

subsection \<open>\<^verbatim>\<open>json.Marshal\<close>\<close>

text \<open>
  String escaping as \<^verbatim>\<open>encoding/json\<close> does it with HTML escaping on (the default of
  \<^verbatim>\<open>json.Marshal\<close>), Go 1.22 or later: the quote and the backslash get a backslash, the
  control characters their short form or \<^verbatim>\<open>\u00XX\<close>, and \<^verbatim>\<open><\<close>, \<^verbatim>\<open>>\<close>, \<^verbatim>\<open>&\<close>
  the \<^verbatim>\<open>\u00XX\<close> form. Bytes from 0x80 on are copied, which is what Go does to valid
  UTF-8 text (other than U+2028 and U+2029); strings are taken to be valid UTF-8.
\<close>

definition hex_char :: "nat \<Rightarrow> char" where
  "hex_char n = ''0123456789abcdef'' ! n"

definition escape_char :: "char \<Rightarrow> string" where
  "escape_char c =
     (if c = CHR 0x5C then [CHR 0x5C, CHR 0x5C]
      else if c = CHR 0x22 then [CHR 0x5C, CHR 0x22]
      else if c = CHR 0x08 then [CHR 0x5C, CHR ''b'']
      else if c = CHR 0x0C then [CHR 0x5C, CHR ''f'']
      else if c = CHR 0x0A then [CHR 0x5C, CHR ''n'']
      else if c = CHR 0x0D then [CHR 0x5C, CHR ''r'']
      else if c = CHR 0x09 then [CHR 0x5C, CHR ''t'']
      else if (of_char c :: nat) < 32 \<or> c = CHR ''<'' \<or> c = CHR ''>'' \<or> c = CHR ''&''
        then [CHR 0x5C, CHR ''u'', CHR ''0'', CHR ''0'',
              hex_char ((of_char c :: nat) div 16), hex_char ((of_char c :: nat) mod 16)]
      else [c])"

definition quote :: "string \<Rightarrow> string" where
  "quote s = CHR 0x22 # concat (map escape_char s) @ [CHR 0x22]"

text \<open>The printer proper writes a tree as it stands, members in the order of the list.\<close>

fun json_print :: "json \<Rightarrow> string"
  and print_elems :: "json list \<Rightarrow> string"
  and print_members :: "(string \<times> json) list \<Rightarrow> string" where
  "json_print JNull = ''null''"
| "json_print (JBool b) = (if b then ''true'' else ''false'')"
| "json_print (JNumber i) = Sprintf_d i"
| "json_print (JString s) = quote s"
| "json_print (JArray vs) = ''['' @ print_elems vs @ '']''"
| "json_print (JObject kvs) = ''{'' @ print_members kvs @ ''}''"
| "print_elems [] = []"
| "print_elems [v] = json_print v"
| "print_elems (v # w # vs) = json_print v @ '','' @ print_elems (w # vs)"
| "print_members [] = []"
| "print_members [(k, v)] = quote k @ '':'' @ json_print v"
| "print_members ((k, v) # m # kvs) =
     quote k @ '':'' @ json_print v @ '','' @ print_members (m # kvs)"

text \<open>Go prints the keys of every map in sorted order (bytewise).\<close>

fun sort_keys :: "json \<Rightarrow> json"
  and sort_keys_elems :: "json list \<Rightarrow> json list"
  and sort_keys_members :: "(string \<times> json) list \<Rightarrow> (string \<times> json) list" where
  "sort_keys JNull = JNull"
| "sort_keys (JBool b) = JBool b"
| "sort_keys (JNumber i) = JNumber i"
| "sort_keys (JString s) = JString s"
| "sort_keys (JArray vs) = JArray (sort_keys_elems vs)"
| "sort_keys (JObject kvs) = JObject (sort_key fst (sort_keys_members kvs))"
| "sort_keys_elems [] = []"
| "sort_keys_elems (v # vs) = sort_keys v # sort_keys_elems vs"
| "sort_keys_members [] = []"
| "sort_keys_members ((k, v) # kvs) = (k, sort_keys v) # sort_keys_members kvs"

definition json_Marshal :: "json \<Rightarrow> string" where
  "json_Marshal v = json_print (sort_keys v)"

subsection \<open>\<^verbatim>\<open>fmt.Sprintf("%v", x)\<close>\<close>

text \<open>
  The default format prints a string without quotes, a slice as its elements between
  brackets separated by spaces, and a map as \<^verbatim>\<open>map[k:v ...]\<close> with sorted keys.
\<close>

fun fmt_print :: "json \<Rightarrow> string"
  and fmt_elems :: "json list \<Rightarrow> string"
  and fmt_members :: "(string \<times> json) list \<Rightarrow> string" where
  "fmt_print JNull = ''<nil>''"
| "fmt_print (JBool b) = Sprintf_t b"
| "fmt_print (JNumber i) = Sprintf_d i"
| "fmt_print (JString s) = s"
| "fmt_print (JArray vs) = ''['' @ fmt_elems vs @ '']''"
| "fmt_print (JObject kvs) = ''map['' @ fmt_members kvs @ '']''"
| "fmt_elems [] = []"
| "fmt_elems [v] = fmt_print v"
| "fmt_elems (v # w # vs) = fmt_print v @ '' '' @ fmt_elems (w # vs)"
| "fmt_members [] = []"
| "fmt_members [(k, v)] = k @ '':'' @ fmt_print v"
| "fmt_members ((k, v) # m # kvs) = k @ '':'' @ fmt_print v @ '' '' @ fmt_members (m # kvs)"

definition Sprintf_v :: "json \<Rightarrow> string" where
  "Sprintf_v v = fmt_print (sort_keys v)"

section \<open>Requests\<close>

text \<open>
  What the client hands to the HTTP library: a method, a path, the query parameters and
  a body. \<^verbatim>\<open>SetQueryParam\<close> replaces the value of a parameter that is already set
  (\<^verbatim>\<open>url.Values.Set\<close>). The body is the Go value given to \<^verbatim>\<open>SetBody\<close>; the library
  sends its \<^verbatim>\<open>json.Marshal\<close>.
\<close>

datatype http_method = GET | POST | PUT | DELETE

record Request =
  Method :: http_method
  URL :: string
  QueryParam :: "(string \<times> string) list"
  Body :: "json option"

definition R :: Request where
  "R = \<lparr>Method = GET, URL = [], QueryParam = [], Body = None\<rparr>"

definition SetQueryParam :: "string \<Rightarrow> string \<Rightarrow> Request \<Rightarrow> Request" where
  "SetQueryParam param v req = req\<lparr>QueryParam := AList.update param v (QueryParam req)\<rparr>"

definition SetBody :: "json \<Rightarrow> Request \<Rightarrow> Request" where
  "SetBody b req = req\<lparr>Body := Some b\<rparr>"

definition Get :: "string \<Rightarrow> Request \<Rightarrow> Request" where
  "Get url req = req\<lparr>Method := GET, URL := url\<rparr>"

definition Post :: "string \<Rightarrow> Request \<Rightarrow> Request" where
  "Post url req = req\<lparr>Method := POST, URL := url\<rparr>"

text \<open>A guarded statement \<^verbatim>\<open>if b { req.f(...) }\<close>, and a block of statements run in order.\<close>

definition if_then :: "bool \<Rightarrow> ('a \<Rightarrow> 'a) \<Rightarrow> 'a \<Rightarrow> 'a" where
  "if_then b f x = (if b then f x else x)"

definition run :: "('a \<Rightarrow> 'a) list \<Rightarrow> 'a \<Rightarrow> 'a" where
  "run stmts x = fold (\<lambda>f. f) stmts x"

section \<open>View queries\<close>

record ViewOptions =
  Key :: json
  Keys :: "json slice"
  StartKey :: json
  EndKey :: json
  StartKeyDocID :: string
  EndKeyDocID :: string
  Limit :: int
  Skip :: int
  Descending :: bool
  InclusiveEnd :: bool
  Group :: bool
  GroupLevel :: int
  Reduce :: "bool option"
  IncludeDocs :: bool
  UpdateSeq :: bool
  Conflicts :: bool
  Attachments :: bool
  AttEncodingInfo :: bool
  Stale :: string
  Update :: string

text \<open>The zero value \<^verbatim>\<open>ViewOptions{}\<close>.\<close>

definition ViewOptions_zero :: ViewOptions where
  "ViewOptions_zero =
     \<lparr>Key = JNull, Keys = None, StartKey = JNull, EndKey = JNull, StartKeyDocID = [],
      EndKeyDocID = [], Limit = 0, Skip = 0, Descending = False, InclusiveEnd = False,
      Group = False, GroupLevel = 0, Reduce = None, IncludeDocs = False, UpdateSeq = False,
      Conflicts = False, Attachments = False, AttEncodingInfo = False, Stale = [],
      Update = []\<rparr>"

record Database =
  name :: string

text \<open>
  \<^verbatim>\<open>Database.View\<close> up to the call of the HTTP library: the request it sends. The
  argument \<^verbatim>\<open>opts\<close> is a pointer, \<open>None\<close> when nil.
\<close>

definition View_params :: "ViewOptions \<Rightarrow> (Request \<Rightarrow> Request) list" where
  "View_params opts =
    [if_then (Key opts \<noteq> JNull) (SetQueryParam ''key'' (json_Marshal (Key opts))),
     if_then (len (Keys opts) > 0) (SetQueryParam ''keys'' (json_Marshal (slice_value (Keys opts)))),
     if_then (StartKey opts \<noteq> JNull) (SetQueryParam ''startkey'' (json_Marshal (StartKey opts))),
     if_then (EndKey opts \<noteq> JNull) (SetQueryParam ''endkey'' (json_Marshal (EndKey opts))),
     if_then (StartKeyDocID opts \<noteq> []) (SetQueryParam ''startkey_docid'' (StartKeyDocID opts)),
     if_then (EndKeyDocID opts \<noteq> []) (SetQueryParam ''endkey_docid'' (EndKeyDocID opts)),
     if_then (Limit opts > 0) (SetQueryParam ''limit'' (Sprintf_d (Limit opts))),
     if_then (Skip opts > 0) (SetQueryParam ''skip'' (Sprintf_d (Skip opts))),
     if_then (Descending opts) (SetQueryParam ''descending'' ''true''),
     if_then (InclusiveEnd opts) (SetQueryParam ''inclusive_end'' ''true''),
     if_then (Group opts) (SetQueryParam ''group'' ''true''),
     if_then (GroupLevel opts > 0) (SetQueryParam ''group_level'' (Sprintf_d (GroupLevel opts))),
     if_then (Reduce opts \<noteq> None) (SetQueryParam ''reduce'' (Sprintf_t (the (Reduce opts)))),
     if_then (IncludeDocs opts) (SetQueryParam ''include_docs'' ''true''),
     if_then (UpdateSeq opts) (SetQueryParam ''update_seq'' ''true''),
     if_then (Conflicts opts) (SetQueryParam ''conflicts'' ''true''),
     if_then (Attachments opts) (SetQueryParam ''attachments'' ''true''),
     if_then (AttEncodingInfo opts) (SetQueryParam ''att_encoding_info'' ''true''),
     if_then (Stale opts \<noteq> []) (SetQueryParam ''stale'' (Stale opts)),
     if_then (Update opts \<noteq> []) (SetQueryParam ''update'' (Update opts))]"

definition View :: "Database \<Rightarrow> string \<Rightarrow> string \<Rightarrow> ViewOptions option \<Rightarrow> Request" where
  "View db designDoc viewName opts =
     (let req = R;
          req = (case opts of None \<Rightarrow> req | Some opts \<Rightarrow> run (View_params opts) req)
      in Get (''/'' @ name db @ ''/_design/'' @ designDoc @ ''/_view/'' @ viewName) req)"

text \<open>\<^verbatim>\<open>Database.ViewWithKeys\<close>: the keys travel in the body of a POST.\<close>

definition ViewWithKeys_params :: "ViewOptions \<Rightarrow> (Request \<Rightarrow> Request) list" where
  "ViewWithKeys_params opts =
    [if_then (IncludeDocs opts) (SetQueryParam ''include_docs'' ''true''),
     if_then (Limit opts > 0) (SetQueryParam ''limit'' (Sprintf_d (Limit opts))),
     if_then (Skip opts > 0) (SetQueryParam ''skip'' (Sprintf_d (Skip opts))),
     if_then (Descending opts) (SetQueryParam ''descending'' ''true''),
     if_then (Group opts) (SetQueryParam ''group'' ''true''),
     if_then (GroupLevel opts > 0) (SetQueryParam ''group_level'' (Sprintf_d (GroupLevel opts))),
     if_then (Reduce opts \<noteq> None) (SetQueryParam ''reduce'' (Sprintf_t (the (Reduce opts))))]"

definition ViewWithKeys ::
  "Database \<Rightarrow> string \<Rightarrow> string \<Rightarrow> json slice \<Rightarrow> ViewOptions option \<Rightarrow> Request" where
  "ViewWithKeys db designDoc viewName keys opts =
     (let body = JObject [(''keys'', slice_value keys)];
          req = SetBody body R;
          req = (case opts of None \<Rightarrow> req | Some opts \<Rightarrow> run (ViewWithKeys_params opts) req)
      in Post (''/'' @ name db @ ''/_design/'' @ designDoc @ ''/_view/'' @ viewName) req)"

text \<open>\<^verbatim>\<open>Database.AllDocs\<close>: a reduced set of options; the range keys go through
  \<^verbatim>\<open>fmt.Sprintf("%v", ...)\<close>.\<close>

definition AllDocs_params :: "ViewOptions \<Rightarrow> (Request \<Rightarrow> Request) list" where
  "AllDocs_params opts =
    [if_then (IncludeDocs opts) (SetQueryParam ''include_docs'' ''true''),
     if_then (Limit opts > 0) (SetQueryParam ''limit'' (Sprintf_d (Limit opts))),
     if_then (Skip opts > 0) (SetQueryParam ''skip'' (Sprintf_d (Skip opts))),
     if_then (Descending opts) (SetQueryParam ''descending'' ''true''),
     if_then (StartKey opts \<noteq> JNull) (SetQueryParam ''startkey'' (Sprintf_v (StartKey opts))),
     if_then (EndKey opts \<noteq> JNull) (SetQueryParam ''endkey'' (Sprintf_v (EndKey opts)))]"

definition AllDocs :: "Database \<Rightarrow> ViewOptions option \<Rightarrow> Request" where
  "AllDocs db opts =
     (let req = R;
          req = (case opts of None \<Rightarrow> req | Some opts \<Rightarrow> run (AllDocs_params opts) req)
      in Get (''/'' @ name db @ ''/_all_docs'') req)"

text \<open>\<^verbatim>\<open>Database.ViewReduce\<close> builds its options and calls \<^verbatim>\<open>View\<close>.\<close>

definition ViewReduce_opts :: "int \<Rightarrow> ViewOptions" where
  "ViewReduce_opts groupLevel =
     (let reduce = True;
          opts = ViewOptions_zero\<lparr>Reduce := Some reduce\<rparr>
      in if groupLevel > 0 then opts\<lparr>GroupLevel := groupLevel\<rparr> else opts\<lparr>Group := True\<rparr>)"

definition ViewReduce :: "Database \<Rightarrow> string \<Rightarrow> string \<Rightarrow> int \<Rightarrow> Request" where
  "ViewReduce db designDoc viewName groupLevel =
     View db designDoc viewName (Some (ViewReduce_opts groupLevel))"

section \<open>Bulk writes\<close>

record BulkDocs =
  Docs :: "json slice"
  NewEdits :: bool

text \<open>The encoding of the struct by its field tags: \<^verbatim>\<open>docs\<close> always, \<^verbatim>\<open>new_edits\<close>
  with \<^verbatim>\<open>omitempty\<close>.\<close>

definition BulkDocs_value :: "BulkDocs \<Rightarrow> json" where
  "BulkDocs_value b =
     JObject ((''docs'', slice_value (Docs b)) #
              (if NewEdits b then [(''new_edits'', JBool (NewEdits b))] else []))"

definition Bulk :: "Database \<Rightarrow> json slice \<Rightarrow> Request" where
  "Bulk db docs =
     (let bulkDocs = \<lparr>Docs = docs, NewEdits = False\<rparr>
      in Post (''/'' @ name db @ ''/_bulk_docs'') (SetBody (BulkDocs_value bulkDocs) R))"

section \<open>The query builder\<close>

text \<open>
  A \<^verbatim>\<open>ViewBuilder\<close> is used through a pointer and holds a pointer to its options, so the
  builders and the option sets live in a store. A pointer is \<open>None\<close> when nil. Following a
  nil pointer panics.
\<close>

type_synonym ref = "nat option"

record ViewBuilder =
  designDoc :: string
  viewName :: string
  options :: ref

record store =
  builder_at :: "nat \<rightharpoonup> ViewBuilder"
  options_at :: "nat \<rightharpoonup> ViewOptions"
  next_addr :: nat

datatype panic = NilPointerDereference

text \<open>\<^verbatim>\<open>NewViewQuery\<close> allocates a zero-valued option set and a builder that points to it.\<close>

definition NewViewQuery :: "Database \<Rightarrow> string \<Rightarrow> string \<Rightarrow> store \<Rightarrow> ref \<times> store" where
  "NewViewQuery db dd vn h =
     (let p = next_addr h; a = Suc (next_addr h)
      in (Some a,
          h\<lparr>builder_at := (builder_at h)(a \<mapsto> \<lparr>designDoc = dd, viewName = vn, options = Some p\<rparr>),
            options_at := (options_at h)(p \<mapsto> ViewOptions_zero),
            next_addr := Suc (Suc (next_addr h))\<rparr>))"

text \<open>The body shared by the configuration methods: \<^verbatim>\<open>vb.options.F = x; return vb\<close>.\<close>

definition assign_option ::
  "(ViewOptions \<Rightarrow> ViewOptions) \<Rightarrow> ref \<Rightarrow> store \<Rightarrow> panic + (ref \<times> store)" where
  "assign_option f vb h =
     (case vb of None \<Rightarrow> Inl NilPointerDereference
      | Some a \<Rightarrow>
        (case builder_at h a of None \<Rightarrow> Inl NilPointerDereference
         | Some b \<Rightarrow>
           (case options b of None \<Rightarrow> Inl NilPointerDereference
            | Some p \<Rightarrow>
              (case options_at h p of None \<Rightarrow> Inl NilPointerDereference
               | Some opts \<Rightarrow> Inr (vb, h\<lparr>options_at := (options_at h)(p \<mapsto> f opts)\<rparr>)))))"













text \<open>\<^verbatim>\<open>Execute\<close> passes the builder's identifiers and its options pointer to \<^verbatim>\<open>View\<close>.\<close>

definition ViewBuilder_Execute :: "ref \<Rightarrow> Database \<Rightarrow> store \<Rightarrow> panic + Request" where
  "ViewBuilder_Execute vb db h =
     (case vb of None \<Rightarrow> Inl NilPointerDereference
      | Some a \<Rightarrow>
        (case builder_at h a of None \<Rightarrow> Inl NilPointerDereference
         | Some b \<Rightarrow>
           (case options b of None \<Rightarrow> Inr (View db (designDoc b) (viewName b) None)
            | Some p \<Rightarrow>
              (case options_at h p of None \<Rightarrow> Inl NilPointerDereference
               | Some opts \<Rightarrow> Inr (View db (designDoc b) (viewName b) (Some opts))))))"

text \<open>A builder in working order: the pointer leads to a builder whose options are allocated.\<close>

definition builder_ok :: "store \<Rightarrow> ref \<Rightarrow> nat \<Rightarrow> ViewBuilder \<Rightarrow> nat \<Rightarrow> ViewOptions \<Rightarrow> bool" where
  "builder_ok h vb a b p opts \<longleftrightarrow>
     vb = Some a \<and> builder_at h a = Some b \<and> options b = Some p \<and> options_at h p = Some opts"


section \<open>\<^verbatim>\<open>json.Unmarshal\<close>\<close>

text \<open>
  The decoder of \<^verbatim>\<open>encoding/json\<close>, as a recursive-descent parser of the JSON
  grammar. A number with a fraction or an exponent lies outside the integers of the value
  type; the parser reports it as \<open>UnsupportedNumber\<close> instead of a value.
\<close>

datatype error = SyntaxError | UnmarshalTypeError | UnsupportedNumber

subsection \<open>Characters and strings\<close>

definition is_space :: "char \<Rightarrow> bool" where
  "is_space c \<longleftrightarrow> c = CHR '' '' \<or> c = CHR 0x09 \<or> c = CHR 0x0D \<or> c = CHR 0x0A"

definition is_digit :: "char \<Rightarrow> bool" where
  "is_digit c \<longleftrightarrow> CHR ''0'' \<le> c \<and> c \<le> CHR ''9''"

definition digit_val :: "char \<Rightarrow> nat" where
  "digit_val c = of_char c - 48"

definition nat_of_digits :: "string \<Rightarrow> nat" where
  "nat_of_digits ds = foldl (\<lambda>n c. 10 * n + digit_val c) 0 ds"

definition hex_val :: "char \<Rightarrow> nat option" where
  "hex_val c =
     (if CHR ''0'' \<le> c \<and> c \<le> CHR ''9'' then Some (of_char c - 48)
      else if CHR ''a'' \<le> c \<and> c \<le> CHR ''f'' then Some (of_char c - 87)
      else if CHR ''A'' \<le> c \<and> c \<le> CHR ''F'' then Some (of_char c - 55)
      else None)"

text \<open>
  Unquoting a string literal after its opening quote, up to the closing one: the escapes
  of JSON, with \<^verbatim>\<open>\uXXXX\<close> written out as UTF-8, a pair of surrogates joined, and a
  lone surrogate replaced by U+FFFD. A control character inside a string is an error.
\<close>

fun getu4 :: "string \<Rightarrow> nat option" where
  "getu4 (a # b # h1 # h2 # h3 # h4 # _) =
     (if a = CHR 0x5C \<and> b = CHR ''u'' then
        (case (hex_val h1, hex_val h2, hex_val h3, hex_val h4) of
           (Some x1, Some x2, Some x3, Some x4) \<Rightarrow> Some (((x1 * 16 + x2) * 16 + x3) * 16 + x4)
         | _ \<Rightarrow> None)
      else None)"
| "getu4 _ = None"

definition utf8_EncodeRune :: "nat \<Rightarrow> string" where
  "utf8_EncodeRune r =
     (if r < 0x80 then [char_of r]
      else if r < 0x800 then [char_of (0xC0 + r div 64), char_of (0x80 + r mod 64)]
      else if r < 0x10000 then
        [char_of (0xE0 + r div 4096), char_of (0x80 + (r div 64) mod 64), char_of (0x80 + r mod 64)]
      else [char_of (0xF0 + r div 262144), char_of (0x80 + (r div 4096) mod 64),
            char_of (0x80 + (r div 64) mod 64), char_of (0x80 + r mod 64)])"

definition utf16_IsSurrogate :: "nat \<Rightarrow> bool" where
  "utf16_IsSurrogate r \<longleftrightarrow> 0xD800 \<le> r \<and> r < 0xE000"

definition utf16_DecodeRune :: "nat \<Rightarrow> nat option \<Rightarrow> nat option" where
  "utf16_DecodeRune r1 r2 =
     (case r2 of None \<Rightarrow> None
      | Some r2 \<Rightarrow>
          if 0xD800 \<le> r1 \<and> r1 < 0xDC00 \<and> 0xDC00 \<le> r2 \<and> r2 < 0xE000
          then Some ((r1 - 0xD800) * 1024 + (r2 - 0xDC00) + 0x10000) else None)"

definition unescape :: "char \<Rightarrow> char option" where
  "unescape e =
     (if e = CHR 0x22 \<or> e = CHR 0x5C \<or> e = CHR ''/'' then Some e
      else if e = CHR ''b'' then Some (CHR 0x08)
      else if e = CHR ''f'' then Some (CHR 0x0C)
      else if e = CHR ''n'' then Some (CHR 0x0A)
      else if e = CHR ''r'' then Some (CHR 0x0D)
      else if e = CHR ''t'' then Some (CHR 0x09)
      else None)"

definition prepend :: "string \<Rightarrow> (string \<times> string) option \<Rightarrow> (string \<times> string) option" where
  "prepend p res = map_option (\<lambda>(s, r). (p @ s, r)) res"

fun unquote :: "string \<Rightarrow> (string \<times> string) option" where
  "unquote [] = None"
| "unquote (c # cs) =
    (if c = CHR 0x22 then Some ([], cs)
     else if c = CHR 0x5C then
       (case cs of [] \<Rightarrow> None
        | e # cs' \<Rightarrow>
           if e = CHR ''u'' then
             (case getu4 (c # cs) of None \<Rightarrow> None
              | Some rr \<Rightarrow>
                 if utf16_IsSurrogate rr then
                   (case utf16_DecodeRune rr (getu4 (drop 4 cs')) of
                      Some dec \<Rightarrow> prepend (utf8_EncodeRune dec) (unquote (drop 10 cs'))
                    | None \<Rightarrow> prepend (utf8_EncodeRune 0xFFFD) (unquote (drop 4 cs')))
                 else prepend (utf8_EncodeRune rr) (unquote (drop 4 cs')))
           else (case unescape e of None \<Rightarrow> None
                 | Some ch \<Rightarrow> prepend [ch] (unquote cs')))
     else if (of_char c :: nat) < 32 then None
     else prepend [c] (unquote cs))"


subsection \<open>Values\<close>

text \<open>
  An integer literal is an optional minus sign and digits without a leading zero. The
  recursive functions take a bound on the nesting and the length of what they read, which
  \<open>json_parse\<close> sets from the length of the input.
\<close>

definition parse_number :: "string \<Rightarrow> error + (json \<times> string)" where
  "parse_number s =
     (let neg = (s \<noteq> [] \<and> hd s = CHR ''-'');
          s1 = (if neg then tl s else s);
          ds = takeWhile is_digit s1;
          r = dropWhile is_digit s1
      in if ds = [] then Inl SyntaxError
         else if hd ds = CHR ''0'' \<and> length ds > 1 then Inl SyntaxError
         else if r \<noteq> [] \<and> (hd r = CHR ''.'' \<or> hd r = CHR ''e'' \<or> hd r = CHR ''E'')
           then Inl UnsupportedNumber
         else Inr (JNumber (if neg then - int (nat_of_digits ds) else int (nat_of_digits ds)), r))"

definition literal :: "string \<Rightarrow> json \<Rightarrow> string \<Rightarrow> error + (json \<times> string)" where
  "literal w v s = (if take (length w) s = w then Inr (v, drop (length w) s) else Inl SyntaxError)"

fun parse_value :: "nat \<Rightarrow> string \<Rightarrow> error + (json \<times> string)"
  and parse_elems :: "nat \<Rightarrow> string \<Rightarrow> error + (json list \<times> string)"
  and parse_members :: "nat \<Rightarrow> string \<Rightarrow> error + ((string \<times> json) list \<times> string)" where
  "parse_value 0 s = Inl SyntaxError"
| "parse_value (Suc n) s =
     (case dropWhile is_space s of
        [] \<Rightarrow> Inl SyntaxError
      | c # cs \<Rightarrow>
          if c = CHR 0x22 then
            (case unquote cs of None \<Rightarrow> Inl SyntaxError | Some (str, r) \<Rightarrow> Inr (JString str, r))
          else if c = CHR ''['' then
            (case dropWhile is_space cs of
               [] \<Rightarrow> Inl SyntaxError
             | c' # r \<Rightarrow>
                 if c' = CHR '']'' then Inr (JArray [], r)
                 else (case parse_elems n cs of
                         Inl e \<Rightarrow> Inl e
                       | Inr (vs, r') \<Rightarrow> Inr (JArray vs, r')))
          else if c = CHR ''{'' then
            (case dropWhile is_space cs of
               [] \<Rightarrow> Inl SyntaxError
             | c' # r \<Rightarrow>
                 if c' = CHR ''}'' then Inr (JObject [], r)
                 else (case parse_members n cs of
                         Inl e \<Rightarrow> Inl e
                       | Inr (kvs, r') \<Rightarrow> Inr (JObject kvs, r')))
          else if c = CHR ''t'' then literal ''true'' (JBool True) (c # cs)
          else if c = CHR ''f'' then literal ''false'' (JBool False) (c # cs)
          else if c = CHR ''n'' then literal ''null'' JNull (c # cs)
          else if c = CHR ''-'' \<or> is_digit c then parse_number (c # cs)
          else Inl SyntaxError)"
| "parse_elems 0 s = Inl SyntaxError"
| "parse_elems (Suc n) s =
     (case parse_value n s of
        Inl e \<Rightarrow> Inl e
      | Inr (v, r) \<Rightarrow>
          (case dropWhile is_space r of
             [] \<Rightarrow> Inl SyntaxError
           | c # r' \<Rightarrow>
               if c = CHR '','' then
                 (case parse_elems n r' of
                    Inl e \<Rightarrow> Inl e
                  | Inr (vs, r'') \<Rightarrow> Inr (v # vs, r''))
               else if c = CHR '']'' then Inr ([v], r')
               else Inl SyntaxError))"
| "parse_members 0 s = Inl SyntaxError"
| "parse_members (Suc n) s =
     (case dropWhile is_space s of
        [] \<Rightarrow> Inl SyntaxError
      | q # cs \<Rightarrow>
          if q \<noteq> CHR 0x22 then Inl SyntaxError
          else
            (case unquote cs of
               None \<Rightarrow> Inl SyntaxError
             | Some (k, r) \<Rightarrow>
                 (case dropWhile is_space r of
                    [] \<Rightarrow> Inl SyntaxError
                  | c # r1 \<Rightarrow>
                      if c \<noteq> CHR '':'' then Inl SyntaxError
                      else
                        (case parse_value n r1 of
                           Inl e \<Rightarrow> Inl e
                         | Inr (v, r2) \<Rightarrow>
                             (case dropWhile is_space r2 of
                                [] \<Rightarrow> Inl SyntaxError
                              | c' # r3 \<Rightarrow>
                                  if c' = CHR '','' then
                                    (case parse_members n r3 of
                                       Inl e \<Rightarrow> Inl e
                                     | Inr (kvs, r4) \<Rightarrow> Inr ((k, v) # kvs, r4))
                                  else if c' = CHR ''}'' then Inr ([(k, v)], r3)
                                  else Inl SyntaxError)))))"

definition json_parse :: "string \<Rightarrow> error + json" where
  "json_parse s =
     (case parse_value (2 * length s + 2) s of
        Inl e \<Rightarrow> Inl e
      | Inr (v, r) \<Rightarrow> if dropWhile is_space r = [] then Inr v else Inl SyntaxError)"


subsection \<open>Decoding into Go values\<close>

text \<open>
  Decoding into an \<^verbatim>\<open>interface{}\<close> makes a Go map of every object: a repeated key
  keeps its last value. Decoding into a \<^verbatim>\<open>map[string]interface{}\<close> accepts an
  object, and \<^verbatim>\<open>null\<close>, which leaves the map nil.
\<close>

definition map_assign :: "string \<times> json \<Rightarrow> (string \<times> json) list \<Rightarrow> (string \<times> json) list" where
  "map_assign kv m = AList.update (fst kv) (snd kv) m"

fun to_maps :: "json \<Rightarrow> json"
  and to_maps_elems :: "json list \<Rightarrow> json list"
  and to_maps_members :: "(string \<times> json) list \<Rightarrow> (string \<times> json) list" where
  "to_maps JNull = JNull"
| "to_maps (JBool b) = JBool b"
| "to_maps (JNumber i) = JNumber i"
| "to_maps (JString s) = JString s"
| "to_maps (JArray vs) = JArray (to_maps_elems vs)"
| "to_maps (JObject kvs) = JObject (fold map_assign (to_maps_members kvs) [])"
| "to_maps_elems [] = []"
| "to_maps_elems (v # vs) = to_maps v # to_maps_elems vs"
| "to_maps_members [] = []"
| "to_maps_members ((k, v) # kvs) = (k, to_maps v) # to_maps_members kvs"

definition json_Unmarshal :: "string \<Rightarrow> error + json" where
  "json_Unmarshal data = (case json_parse data of Inl e \<Rightarrow> Inl e | Inr v \<Rightarrow> Inr (to_maps v))"

definition json_Unmarshal_map :: "string \<Rightarrow> error + (string \<times> json) list" where
  "json_Unmarshal_map data =
     (case json_Unmarshal data of
        Inl e \<Rightarrow> Inl e
      | Inr v \<Rightarrow> (case v of JNull \<Rightarrow> Inr [] | JObject kvs \<Rightarrow> Inr kvs | _ \<Rightarrow> Inl UnmarshalTypeError))"

section \<open>Documents\<close>

text \<open>
  \<^verbatim>\<open>MarshalJSON\<close> builds the map \<^verbatim>\<open>doc\<close> and hands it to \<^verbatim>\<open>json.Marshal\<close>, which
  cannot fail on the values of the tree. \<^verbatim>\<open>UnmarshalJSON\<close> decodes into a map and then
  visits every entry; the receiver keeps the attributes that no entry sets. The order in
  which Go visits the entries of a map is not fixed; here it is the order of the list.
\<close>

record Document =
  ID :: string
  Rev :: string
  Deleted :: bool
  Data :: "(string \<times> json) list"

definition Document_zero :: Document where
  "Document_zero = \<lparr>ID = [], Rev = [], Deleted = False, Data = []\<rparr>"

definition MarshalJSON_doc :: "Document \<Rightarrow> (string \<times> json) list" where
  "MarshalJSON_doc d =
     run [fold map_assign (Data d),
          if_then (ID d \<noteq> []) (map_assign (''_id'', JString (ID d))),
          if_then (Rev d \<noteq> []) (map_assign (''_rev'', JString (Rev d))),
          if_then (Deleted d) (map_assign (''_deleted'', JBool (Deleted d)))] []"

definition MarshalJSON :: "Document \<Rightarrow> string" where
  "MarshalJSON d = json_Marshal (JObject (MarshalJSON_doc d))"

definition UnmarshalJSON_field :: "string \<times> json \<Rightarrow> Document \<Rightarrow> Document" where
  "UnmarshalJSON_field kv d =
     (let k = fst kv; v = snd kv in
      if k = ''_id'' then (case v of JString x \<Rightarrow> d\<lparr>ID := x\<rparr> | _ \<Rightarrow> d)
      else if k = ''_rev'' then (case v of JString x \<Rightarrow> d\<lparr>Rev := x\<rparr> | _ \<Rightarrow> d)
      else if k = ''_deleted'' then (case v of JBool x \<Rightarrow> d\<lparr>Deleted := x\<rparr> | _ \<Rightarrow> d)
      else d\<lparr>Data := map_assign (k, v) (Data d)\<rparr>)"

definition UnmarshalJSON :: "string \<Rightarrow> Document \<Rightarrow> error + Document" where
  "UnmarshalJSON data d =
     (case json_Unmarshal_map data of
        Inl err \<Rightarrow> Inl err
      | Inr doc \<Rightarrow> Inr (fold UnmarshalJSON_field doc (d\<lparr>Data := []\<rparr>)))"

section \<open>Error responses\<close>

text \<open>
  Decoding into the struct \<^verbatim>\<open>Error\<close> sets \<^verbatim>\<open>Type\<close> and \<^verbatim>\<open>Reason\<close> from the
  members \<^verbatim>\<open>error\<close> and \<^verbatim>\<open>reason\<close>, matched without regard to (ASCII) case, member
  by member in the order of the text; \<^verbatim>\<open>null\<close> leaves a field as it is, a value that is
  not a string is a type error, after which decoding goes on and the first error is
  returned. \<^verbatim>\<open>StatusCode\<close> has the tag \<^verbatim>\<open>json:"-"\<close> and is never decoded.
\<close>

record Error =
  StatusCode :: int
  Type :: string
  Reason :: string

record Response =
  resp_StatusCode :: int
  resp_Body :: string

definition IsError :: "Response \<Rightarrow> bool" where
  "IsError resp \<longleftrightarrow> resp_StatusCode resp > 399"

definition to_lower :: "char \<Rightarrow> char" where
  "to_lower c = (if CHR ''A'' \<le> c \<and> c \<le> CHR ''Z'' then char_of (of_char c + (32::nat)) else c)"

definition equal_fold :: "string \<Rightarrow> string \<Rightarrow> bool" where
  "equal_fold a b \<longleftrightarrow> map to_lower a = map to_lower b"

definition Error_field :: "string \<times> json \<Rightarrow> Error \<times> error option \<Rightarrow> Error \<times> error option" where
  "Error_field kv st =
     (let k = fst kv; v = snd kv; e = fst st; err = snd st;
          mismatch = (if err = None then Some UnmarshalTypeError else err) in
      if equal_fold k ''error'' then
        (case v of JString s \<Rightarrow> (e\<lparr>Type := s\<rparr>, err) | JNull \<Rightarrow> (e, err) | _ \<Rightarrow> (e, mismatch))
      else if equal_fold k ''reason'' then
        (case v of JString s \<Rightarrow> (e\<lparr>Reason := s\<rparr>, err) | JNull \<Rightarrow> (e, err) | _ \<Rightarrow> (e, mismatch))
      else (e, err))"

definition json_Unmarshal_Error :: "string \<Rightarrow> Error \<Rightarrow> Error \<times> error option" where
  "json_Unmarshal_Error data e =
     (case json_parse data of
        Inl err \<Rightarrow> (e, Some err)
      | Inr v \<Rightarrow>
          (case v of JNull \<Rightarrow> (e, None) | JObject kvs \<Rightarrow> fold Error_field kvs (e, None)
           | _ \<Rightarrow> (e, Some UnmarshalTypeError)))"

definition parseError :: "Response \<Rightarrow> Error" where
  "parseError resp =
     (let couchError = \<lparr>StatusCode = resp_StatusCode resp, Type = [], Reason = []\<rparr>;
          (couchError, err) = json_Unmarshal_Error (resp_Body resp) couchError
      in if err \<noteq> None then couchError\<lparr>Type := ''unknown'', Reason := resp_Body resp\<rparr>
         else couchError)"

section \<open>Properties of the request encoders\<close>

subsection \<open>Auxiliary facts\<close>

lemma if_then_simps: "if_then True f x = f x" "if_then False f x = x"
  by (simp_all add: if_then_def)

lemma run_Nil: "run [] x = x"
  by (simp add: run_def)

lemma run_Cons: "run (f # fs) x = run fs (f x)"
  by (simp add: run_def)

lemma QueryParam_if_then_Set:
  "map_of (QueryParam (if_then b (SetQueryParam k v) r)) k' =
     (if b \<and> k' = k then Some v else map_of (QueryParam r) k')"
  by (simp add: if_then_def SetQueryParam_def update_conv')

lemma frame_if_then_Set:
  "Method (if_then b (SetQueryParam k v) r) = Method r"
  "URL (if_then b (SetQueryParam k v) r) = URL r"
  "Body (if_then b (SetQueryParam k v) r) = Body r"
  by (simp_all add: if_then_def SetQueryParam_def)

lemma Get_simps:
  "Method (Get u r) = GET" "URL (Get u r) = u" "QueryParam (Get u r) = QueryParam r"
  "Body (Get u r) = Body r"
  by (simp_all add: Get_def)

lemma Post_simps:
  "Method (Post u r) = POST" "URL (Post u r) = u" "QueryParam (Post u r) = QueryParam r"
  "Body (Post u r) = Body r"
  by (simp_all add: Post_def)

lemma SetBody_simps:
  "Method (SetBody b r) = Method r" "URL (SetBody b r) = URL r"
  "QueryParam (SetBody b r) = QueryParam r" "Body (SetBody b r) = Some b"
  by (simp_all add: SetBody_def)

lemma R_simps: "Method R = GET" "URL R = []" "QueryParam R = []" "Body R = None"
  by (simp_all add: R_def)

lemma View_params_Body: "Body (run (View_params opts) r) = Body r"
  by (simp add: View_params_def run_Cons run_Nil frame_if_then_Set)

lemma ViewWithKeys_params_Body: "Body (run (ViewWithKeys_params opts) r) = Body r"
  by (simp add: ViewWithKeys_params_def run_Cons run_Nil frame_if_then_Set)

lemma View_Method_Body: "Method (View db dd vn opts) = GET \<and>
    Body (View db dd vn opts) = None"
  by (cases opts) (simp_all add: View_def Get_simps R_simps View_params_Body)

lemma View_lookup:
  "map_of (QueryParam (View db dd vn (Some opts))) p =
     map_of (QueryParam (run (View_params opts) R)) p"
  by (simp add: View_def Get_simps)

lemmas lookup_simps = View_params_def ViewWithKeys_params_def AllDocs_params_def
  run_Cons run_Nil QueryParam_if_then_Set R_simps

subsection \<open>Zero values are not transmitted\<close>

text \<open>
  Claim C7. With a nil options pointer and with the zero-valued options, \<^verbatim>\<open>View\<close> sets
  no query parameter at all. For any options, \<^verbatim>\<open>limit\<close> and \<^verbatim>\<open>skip\<close> are sent
  exactly when positive, as the decimal string of the value, and \<^verbatim>\<open>descending\<close> is sent
  exactly when true, as the literal \<^verbatim>\<open>true\<close>.
\<close>

theorem View_zero_value_suppression:
  "QueryParam (View db dd vn None) = [] \<and>
   QueryParam (View db dd vn (Some ViewOptions_zero)) = [] \<and>
   map_of (QueryParam (View db dd vn (Some opts))) ''limit'' =
     (if Limit opts > 0 then Some (Sprintf_d (Limit opts)) else None) \<and>
   map_of (QueryParam (View db dd vn (Some opts))) ''skip'' =
     (if Skip opts > 0 then Some (Sprintf_d (Skip opts)) else None) \<and>
   map_of (QueryParam (View db dd vn (Some opts))) ''descending'' =
     (if Descending opts then Some ''true'' else None)"
proof -
  have nil: "QueryParam (View db dd vn None) = []"
    by (simp add: View_def Get_simps R_simps)
  have zero: "QueryParam (View db dd vn (Some ViewOptions_zero)) = []"
    by (simp add: View_def Get_simps R_simps View_params_def run_Cons run_Nil if_then_simps
        ViewOptions_zero_def len_def)
  have limit: "map_of (QueryParam (View db dd vn (Some opts))) ''limit'' =
      (if Limit opts > 0 then Some (Sprintf_d (Limit opts)) else None)"
    unfolding View_lookup by (simp add: lookup_simps)
  have skip: "map_of (QueryParam (View db dd vn (Some opts))) ''skip'' =
      (if Skip opts > 0 then Some (Sprintf_d (Skip opts)) else None)"
    unfolding View_lookup by (simp add: lookup_simps)
  have desc: "map_of (QueryParam (View db dd vn (Some opts))) ''descending'' =
      (if Descending opts then Some ''true'' else None)"
    unfolding View_lookup by (simp add: lookup_simps)
  from nil zero limit skip desc show ?thesis by blast
qed

theorem View_zero_value_suppression_witness:
  "map_of (QueryParam (View \<lparr>name = ''db''\<rparr> ''users'' ''by_age''
      (Some (ViewOptions_zero\<lparr>Limit := 10, Descending := True\<rparr>)))) ''limit'' = Some ''10'' \<and>
   map_of (QueryParam (View \<lparr>name = ''db''\<rparr> ''users'' ''by_age''
      (Some (ViewOptions_zero\<lparr>Limit := 10, Descending := True\<rparr>)))) ''skip'' = None \<and>
   map_of (QueryParam (View \<lparr>name = ''db''\<rparr> ''users'' ''by_age''
      (Some (ViewOptions_zero\<lparr>Limit := 10, Descending := True\<rparr>)))) ''descending'' = Some ''true''"
  using View_zero_value_suppression [of "\<lparr>name = ''db''\<rparr>" "''users''" "''by_age''"
      "ViewOptions_zero\<lparr>Limit := 10, Descending := True\<rparr>"]
  by (simp add: ViewOptions_zero_def Sprintf_d_def digit_char_def)

subsection \<open>Reduce queries\<close>

text \<open>
  Claim C8. \<^verbatim>\<open>ViewReduce\<close> queries the view with options that force \<^verbatim>\<open>reduce\<close> to
  true; a group level of zero or below turns \<^verbatim>\<open>Group\<close> on and leaves \<^verbatim>\<open>GroupLevel\<close> at
  zero, a positive group level is stored in \<^verbatim>\<open>GroupLevel\<close> and leaves \<^verbatim>\<open>Group\<close> false.
  Every other option keeps its zero value, and the two are never set together.
\<close>

theorem ViewReduce_group_options:
  "ViewReduce db dd vn groupLevel =
     View db dd vn (Some (ViewReduce_opts groupLevel)) \<and>
   Reduce (ViewReduce_opts groupLevel) = Some True \<and>
   (groupLevel \<le> 0 \<longrightarrow>
      Group (ViewReduce_opts groupLevel) \<and> GroupLevel (ViewReduce_opts groupLevel) = 0 \<and>
      ViewReduce_opts groupLevel = ViewOptions_zero\<lparr>Reduce := Some True, Group := True\<rparr>) \<and>
   (groupLevel > 0 \<longrightarrow>
      \<not> Group (ViewReduce_opts groupLevel) \<and>
      GroupLevel (ViewReduce_opts groupLevel) = groupLevel \<and>
      ViewReduce_opts groupLevel =
        ViewOptions_zero\<lparr>Reduce := Some True, GroupLevel := groupLevel\<rparr>) \<and>
   \<not> (Group (ViewReduce_opts groupLevel) \<and> GroupLevel (ViewReduce_opts groupLevel) > 0)"
  by (simp add: ViewReduce_def ViewReduce_opts_def ViewOptions_zero_def Let_def)

theorem ViewReduce_group_options_witness:
  "Group (ViewReduce_opts 0) \<and> GroupLevel (ViewReduce_opts 0) = 0 \<and>
   Reduce (ViewReduce_opts 0) = Some True \<and>
   \<not> Group (ViewReduce_opts 2) \<and> GroupLevel (ViewReduce_opts 2) = 2 \<and>
   Reduce (ViewReduce_opts 2) = Some True"
  using ViewReduce_group_options [of "\<lparr>name = ''db''\<rparr>" "''stats''" "''count''" 0]
    ViewReduce_group_options [of "\<lparr>name = ''db''\<rparr>" "''stats''" "''count''" 2]
  by (simp add: ViewReduce_opts_def ViewOptions_zero_def Let_def)

subsection \<open>Which transport carries a list of keys\<close>

lemma AllDocs_lookup:
  "map_of (QueryParam (AllDocs db (Some opts))) p =
     map_of (QueryParam (run (AllDocs_params opts) R)) p"
  by (simp add: AllDocs_def Get_simps)

lemma ViewWithKeys_lookup:
  "map_of (QueryParam (ViewWithKeys db dd vn keys (Some opts))) p =
     map_of (QueryParam (run (ViewWithKeys_params opts) (SetBody b R))) p"
  by (simp add: ViewWithKeys_def Post_simps ViewWithKeys_params_def run_Cons run_Nil
      QueryParam_if_then_Set SetBody_simps)

lemma ViewWithKeys_Method_Body:
  "Method (ViewWithKeys db dd vn keys opts) = POST \<and>
   Body (ViewWithKeys db dd vn keys opts) =
     Some (JObject [(''keys'', slice_value keys)])"
  by (cases opts)
    (simp_all add: ViewWithKeys_def Post_simps SetBody_simps ViewWithKeys_params_Body)

lemma ViewWithKeys_no_key_params:
  "map_of (QueryParam (ViewWithKeys db dd vn keys opts)) ''keys'' = None \<and>
   map_of (QueryParam (ViewWithKeys db dd vn keys opts)) ''key'' = None"
proof (cases opts)
  case None
  then show ?thesis by (simp add: ViewWithKeys_def Post_simps SetBody_simps R_simps)
next
  case (Some a)
  then show ?thesis
    unfolding Some ViewWithKeys_lookup [where b = "JObject [(''keys'', slice_value keys)]"]
    by (simp add: lookup_simps SetBody_simps)
qed

text \<open>
  Claim C2, as the code has it. \<^verbatim>\<open>View\<close> always sends a GET without a body, whatever
  the options: a non-empty \<^verbatim>\<open>Keys\<close> list goes into the query parameter \<^verbatim>\<open>keys\<close> as
  its JSON text, next to the single \<^verbatim>\<open>key\<close> when that is set. The POST whose body is
  the object with the one member \<^verbatim>\<open>keys\<close> is what \<^verbatim>\<open>ViewWithKeys\<close> sends, with the
  keys it is given as an argument; it puts neither \<^verbatim>\<open>keys\<close> nor \<^verbatim>\<open>key\<close> into the
  query string.
\<close>

theorem View_keys_transport:
  "Method (View db dd vn opts) = GET \<and>
   Body (View db dd vn opts) = None \<and>
   map_of (QueryParam (View db dd vn (Some opts'))) ''keys'' =
     (if len (Keys opts') > 0 then Some (json_Marshal (slice_value (Keys opts'))) else None) \<and>
   map_of (QueryParam (View db dd vn (Some opts'))) ''key'' =
     (if Key opts' \<noteq> JNull then Some (json_Marshal (Key opts')) else None) \<and>
   Method (ViewWithKeys db dd vn keys opts) = POST \<and>
   Body (ViewWithKeys db dd vn keys opts) =
     Some (JObject [(''keys'', slice_value keys)]) \<and>
   map_of (QueryParam (ViewWithKeys db dd vn keys opts)) ''keys'' = None \<and>
   map_of (QueryParam (ViewWithKeys db dd vn keys opts)) ''key'' = None"
proof -
  have keys: "map_of (QueryParam (View db dd vn (Some opts'))) ''keys'' =
      (if len (Keys opts') > 0 then Some (json_Marshal (slice_value (Keys opts'))) else None)"
    unfolding View_lookup by (simp add: lookup_simps)
  have key: "map_of (QueryParam (View db dd vn (Some opts'))) ''key'' =
      (if Key opts' \<noteq> JNull then Some (json_Marshal (Key opts')) else None)"
    unfolding View_lookup by (simp add: lookup_simps)
  from keys key View_Method_Body [of db dd vn opts]
    ViewWithKeys_Method_Body [of db dd vn keys opts]
    ViewWithKeys_no_key_params [of db dd vn keys opts]
  show ?thesis by blast
qed

theorem View_keys_transport_witness:
  \<open>Method (View \<lparr>name = ''db''\<rparr> ''users'' ''by_city''
      (Some (ViewOptions_zero\<lparr>Key := JArray [JString ''a'']\<rparr>))) = GET \<and>
   Body (View \<lparr>name = ''db''\<rparr> ''users'' ''by_city''
      (Some (ViewOptions_zero\<lparr>Key := JArray [JString ''a'']\<rparr>))) = None \<and>
   map_of (QueryParam (View \<lparr>name = ''db''\<rparr> ''users'' ''by_city''
      (Some (ViewOptions_zero\<lparr>Key := JArray [JString ''a'']\<rparr>)))) ''key'' = Some ''["a"]'' \<and>
   map_of (QueryParam (View \<lparr>name = ''db''\<rparr> ''users'' ''by_city''
      (Some (ViewOptions_zero\<lparr>Key := JArray [JString ''a'']\<rparr>)))) ''keys'' = None \<and>
   Method (ViewWithKeys \<lparr>name = ''db''\<rparr> ''users'' ''by_city'' (Some [JString ''a''])
      (Some (ViewOptions_zero\<lparr>Key := JArray [JString ''a'']\<rparr>))) = POST \<and>
   Body (ViewWithKeys \<lparr>name = ''db''\<rparr> ''users'' ''by_city'' (Some [JString ''a''])
      (Some (ViewOptions_zero\<lparr>Key := JArray [JString ''a'']\<rparr>))) =
     Some (JObject [(''keys'', JArray [JString ''a''])])\<close>
  using View_keys_transport [of "\<lparr>name = ''db''\<rparr>" "''users''" "''by_city''"
      "Some (ViewOptions_zero\<lparr>Key := JArray [JString ''a'']\<rparr>)"
      "ViewOptions_zero\<lparr>Key := JArray [JString ''a'']\<rparr>" "Some [JString ''a'']"]
  by (simp add: ViewOptions_zero_def len_def slice_value_def json_Marshal_def quote_def
      escape_char_def)

text \<open>
  The claim as the specification words it fails: with two keys in \<^verbatim>\<open>Keys\<close>, \<^verbatim>\<open>View\<close>
  sends a GET, without a body, and the list in the query string.
\<close>

theorem View_keys_transport_counterexample:
  \<open>Method (View \<lparr>name = ''db''\<rparr> ''users'' ''by_city''
      (Some (ViewOptions_zero\<lparr>Keys := Some [JString ''a'', JString ''b'']\<rparr>))) \<noteq> POST \<and>
   Body (View \<lparr>name = ''db''\<rparr> ''users'' ''by_city''
      (Some (ViewOptions_zero\<lparr>Keys := Some [JString ''a'', JString ''b'']\<rparr>))) \<noteq>
     Some (JObject [(''keys'', JArray [JString ''a'', JString ''b''])]) \<and>
   View \<lparr>name = ''db''\<rparr> ''users'' ''by_city''
      (Some (ViewOptions_zero\<lparr>Keys := Some [JString ''a'', JString ''b'']\<rparr>)) =
     \<lparr>Method = GET, URL = ''/db/_design/users/_view/by_city'',
      QueryParam = [(''keys'', ''["a","b"]'')], Body = None\<rparr>\<close>
  by (simp add: View_def View_params_def run_def if_then_def ViewOptions_zero_def len_def
      Get_def R_def SetQueryParam_def slice_value_def json_Marshal_def quote_def
      escape_char_def)

subsection \<open>How keys are written into the query string\<close>

lemma View_keys_json_encoded:
  "map_of (QueryParam (View db dd vn (Some opts))) ''startkey'' =
     (if StartKey opts \<noteq> JNull then Some (json_Marshal (StartKey opts)) else None) \<and>
   map_of (QueryParam (View db dd vn (Some opts))) ''endkey'' =
     (if EndKey opts \<noteq> JNull then Some (json_Marshal (EndKey opts)) else None)"
  unfolding View_lookup by (simp add: lookup_simps)

lemma AllDocs_keys_default_format:
  "map_of (QueryParam (AllDocs db (Some opts))) ''startkey'' =
     (if StartKey opts \<noteq> JNull then Some (Sprintf_v (StartKey opts)) else None) \<and>
   map_of (QueryParam (AllDocs db (Some opts))) ''endkey'' =
     (if EndKey opts \<noteq> JNull then Some (Sprintf_v (EndKey opts)) else None) \<and>
   map_of (QueryParam (AllDocs db (Some opts))) ''key'' = None \<and>
   map_of (QueryParam (AllDocs db (Some opts))) ''keys'' = None"
  unfolding AllDocs_lookup by (simp add: lookup_simps)

text \<open>
  Claim C4 at the input where the code departs from it. \<^verbatim>\<open>View\<close> writes the start key
  as JSON, so the string \<^verbatim>\<open>"5"\<close> keeps its quotes and differs from the number 5.
  \<^verbatim>\<open>AllDocs\<close> formats the same option with \<^verbatim>\<open>%v\<close>: the string and the number give the
  same request, with \<^verbatim>\<open>startkey=5\<close>.
\<close>

theorem AllDocs_key_type_lost:
  \<open>View \<lparr>name = ''db''\<rparr> ''d'' ''v'' (Some (ViewOptions_zero\<lparr>StartKey := JString ''5''\<rparr>)) =
     \<lparr>Method = GET, URL = ''/db/_design/d/_view/v'',
      QueryParam = [(''startkey'', ''"5"'')], Body = None\<rparr> \<and>
   View \<lparr>name = ''db''\<rparr> ''d'' ''v'' (Some (ViewOptions_zero\<lparr>StartKey := JNumber 5\<rparr>)) =
     \<lparr>Method = GET, URL = ''/db/_design/d/_view/v'',
      QueryParam = [(''startkey'', ''5'')], Body = None\<rparr> \<and>
   AllDocs \<lparr>name = ''db''\<rparr> (Some (ViewOptions_zero\<lparr>StartKey := JString ''5''\<rparr>)) =
     \<lparr>Method = GET, URL = ''/db/_all_docs'', QueryParam = [(''startkey'', ''5'')], Body = None\<rparr> \<and>
   AllDocs \<lparr>name = ''db''\<rparr> (Some (ViewOptions_zero\<lparr>StartKey := JNumber 5\<rparr>)) =
     \<lparr>Method = GET, URL = ''/db/_all_docs'', QueryParam = [(''startkey'', ''5'')], Body = None\<rparr>\<close>
  by (simp add: View_def View_params_def AllDocs_def AllDocs_params_def run_def if_then_def
      ViewOptions_zero_def len_def Get_def R_def SetQueryParam_def json_Marshal_def quote_def
      escape_char_def Sprintf_v_def Sprintf_d_def digit_char_def)

subsection \<open>The body of a bulk write\<close>

text \<open>
  Claim C10. The body that \<^verbatim>\<open>Bulk\<close> posts is the object with the single member
  \<^verbatim>\<open>docs\<close>, holding the documents it was given; there is no member \<^verbatim>\<open>new_edits\<close>.
  \<^verbatim>\<open>Bulk\<close> leaves \<^verbatim>\<open>NewEdits\<close> false, and the encoding of a \<^verbatim>\<open>BulkDocs\<close> never
  contains \<^verbatim>\<open>new_edits\<close> with the value false: the member is there exactly when the field
  is true.
\<close>

theorem Bulk_body_has_only_docs:
  \<open>Method (Bulk db docs) = POST \<and>
   URL (Bulk db docs) = ''/'' @ name db @ ''/_bulk_docs'' \<and>
   QueryParam (Bulk db docs) = [] \<and>
   Body (Bulk db docs) = Some (JObject [(''docs'', slice_value docs)]) \<and>
   json_Marshal (JObject [(''docs'', slice_value docs)]) =
     ''{"docs":'' @ json_Marshal (slice_value docs) @ ''}'' \<and>
   BulkDocs_value b =
     JObject ((''docs'', slice_value (Docs b)) #
              (if NewEdits b then [(''new_edits'', JBool True)] else []))\<close>
  by (simp add: Bulk_def Post_def SetBody_def R_def BulkDocs_value_def json_Marshal_def
      quote_def escape_char_def)

section \<open>Properties of the query builder\<close>


text \<open>What an assignment leaves alone: every builder, with its identifiers and its options
  pointer, every other option set, and the allocation mark.\<close>

lemma assign_option_frame:
  assumes "builder_ok h vb a b p opts" and "assign_option f vb h = Inr (vb', h')"
  shows "vb' = vb \<and> builder_at h' = builder_at h \<and> next_addr h' = next_addr h \<and>
         options_at h' p = Some (f opts) \<and> (\<forall>q. q \<noteq> p \<longrightarrow> options_at h' q = options_at h q) \<and>
         builder_ok h' vb a b p (f opts)"
  using assms by (auto simp add: builder_ok_def assign_option_def)

text \<open>With a nil builder, or a builder whose options pointer is nil (the zero value of the
  struct), the assignment panics.\<close>

lemma assign_option_nil:
  "assign_option f None h = Inl NilPointerDereference"
  "builder_at h a = Some b \<Longrightarrow> options b = None \<Longrightarrow>
     assign_option f (Some a) h = Inl NilPointerDereference"
  by (simp_all add: assign_option_def)

lemma NewViewQuery_ok:
  "NewViewQuery db dd vn h = (vb, h') \<Longrightarrow>
   builder_ok h' vb (Suc (next_addr h))
     \<lparr>designDoc = dd, viewName = vn, options = Some (next_addr h)\<rparr> (next_addr h) ViewOptions_zero"
  by (auto simp add: NewViewQuery_def builder_ok_def Let_def)



end
